theory Spec2Isabelle
  imports Main "HOL-Library.Word"
begin

unbundle bit_operations_syntax

section \<open>Data model of the LC-3 virtual machine\<close>

text \<open>
  Both source files declare the same enumerations and the same two global slices
  \<^verbatim>\<open>memory\<close> and \<^verbatim>\<open>registers\<close> of \<^verbatim>\<open>uint16\<close>. A Go slice is modelled as a list; an
  index outside the slice is a run-time panic in Go and the value \<open>Inl IndexOutOfRange\<close>
  here.
\<close>

type_synonym uint16 = "16 word"

text \<open>Go's \<^verbatim>\<open>uint\<close> on a 64-bit platform.\<close>

type_synonym uint = "64 word"

datatype error = IndexOutOfRange

text \<open>The \<^verbatim>\<open>Register\<close> enumeration (\<^verbatim>\<open>iota\<close> from 0).\<close>

definition r0 :: nat where "r0 = 0"
definition r1 :: nat where "r1 = 1"
definition r2 :: nat where "r2 = 2"
definition r3 :: nat where "r3 = 3"
definition r4 :: nat where "r4 = 4"
definition r5 :: nat where "r5 = 5"
definition r6 :: nat where "r6 = 6"
definition r7 :: nat where "r7 = 7"
definition rPC :: nat where "rPC = 8"
definition rCD :: nat where "rCD = 9"
definition rCN :: nat where "rCN = 10"

text \<open>The \<^verbatim>\<open>Flag\<close> enumeration, as the \<^verbatim>\<open>uint16\<close> values the code stores.\<close>

definition flPOS :: uint16 where "flPOS = push_bit 0 1"
definition flZRO :: uint16 where "flZRO = push_bit 1 1"
definition flNEG :: uint16 where "flNEG = push_bit 2 1"

text \<open>The memory-mapped register addresses; declared in the source and used nowhere.\<close>

definition rKBSR :: uint16 where "rKBSR = 0xFE00"
definition rKBDR :: uint16 where "rKBDR = 0xFE02"

definition pcStart :: uint16 where "pcStart = 0x3000"

text \<open>\<^verbatim>\<open>math.MaxUint16\<close>, the length \<^verbatim>\<open>main\<close> gives to \<^verbatim>\<open>memory\<close>.\<close>

definition MaxUint16 :: nat where "MaxUint16 = 65535"

record vm =
  memory :: "uint16 list"
  registers :: "uint16 list"

text \<open>Reading and assigning a slice element, with Go's bounds check.\<close>

definition index :: "'a list \<Rightarrow> nat \<Rightarrow> error + 'a" where
  "index xs i = (if i < length xs then Inr (xs ! i) else Inl IndexOutOfRange)"

definition assign :: "'a list \<Rightarrow> nat \<Rightarrow> 'a \<Rightarrow> error + 'a list" where
  "assign xs i v = (if i < length xs then Inr (xs[i := v]) else Inl IndexOutOfRange)"

section \<open>The helper functions\<close>

text \<open>\<^verbatim>\<open>return r >> 12, (r >> 9) & 0x7, (r >> 6) & 0x7, (r >> 5) & 0x1, r & 0x1F\<close>\<close>

definition decode :: "uint16 \<Rightarrow> uint16 \<times> uint16 \<times> uint16 \<times> uint16 \<times> uint16" where
  "decode r =
     (drop_bit 12 r, drop_bit 9 r AND 0x7, drop_bit 6 r AND 0x7, drop_bit 5 r AND 0x1,
      r AND 0x1F)"

text \<open>\<^verbatim>\<open>return memory[address]\<close>\<close>

definition read :: "uint16 list \<Rightarrow> uint16 \<Rightarrow> error + uint16" where
  "read mem address = index mem (unat address)"

text \<open>\<^verbatim>\<open>memory[address] = value\<close>\<close>

definition "write" :: "uint16 list \<Rightarrow> uint16 \<Rightarrow> uint16 \<Rightarrow> error + uint16 list" where
  "write mem address val = assign mem (unat address) val"

text \<open>
  \<^verbatim>\<open>if ((x >> (count - 1)) & 0x1) == 0x1 { x = (0xFFFF << count) }; return x\<close>.
  The subtraction is on \<^verbatim>\<open>uint\<close> and wraps at 0; the constant \<^verbatim>\<open>0xFFFF\<close> takes the type of
  \<^verbatim>\<open>x\<close>, so the left shift is a 16-bit shift that drops the bits shifted out.
\<close>

definition signExtend :: "uint16 \<Rightarrow> uint \<Rightarrow> uint16" where
  "signExtend x count =
     (if drop_bit (unat (count - 1)) x AND 0x1 = 0x1 then push_bit (unat count) 0xFFFF
      else x)"

text \<open>\<^verbatim>\<open>return x<<8 | x>>8\<close>\<close>

definition swap :: "uint16 \<Rightarrow> uint16" where
  "swap x = push_bit 8 x OR drop_bit 8 x"

text \<open>
  \<^verbatim>\<open>updateFlag(f)\<close>: the parameter is a register index; the flag is computed from
  \<^verbatim>\<open>registers[f]\<close> and stored in \<^verbatim>\<open>registers[rCD]\<close>.
\<close>

definition updateFlag :: "uint16 \<Rightarrow> uint16 list \<Rightarrow> error + uint16 list" where
  "updateFlag f regs =
     (case index regs (unat f) of
        Inl e \<Rightarrow> Inl e
      | Inr v \<Rightarrow>
          if v = 0x0 then assign regs rCD flZRO
          else if drop_bit 15 v = 0x1 then assign regs rCD flNEG
          else assign regs rCD flPOS)"

section \<open>The event loop of \<^verbatim>\<open>main\<close>\<close>

text \<open>
  The body of \<^verbatim>\<open>case 0x1\<close>, the same text in both files:
  \<^verbatim>\<open>if flag == 0x1 { registers[dst] = registers[srcA] + srcB }
  else { registers[dst] = registers[srcA] + registers[srcB] };
  updateFlag(dst)\<close>.
  The immediate \<^verbatim>\<open>srcB\<close> is added as decoded, without a call of \<^verbatim>\<open>signExtend\<close>.
\<close>

definition case_Add ::
  "uint16 \<Rightarrow> uint16 \<Rightarrow> uint16 \<Rightarrow> uint16 \<Rightarrow> uint16 list \<Rightarrow> error + uint16 list" where
  "case_Add dst srcA flag srcB regs =
     (case
        (if flag = 0x1 then
           (case index regs (unat srcA) of
              Inl e \<Rightarrow> Inl e
            | Inr a \<Rightarrow> assign regs (unat dst) (a + srcB))
         else
           (case index regs (unat srcA) of
              Inl e \<Rightarrow> Inl e
            | Inr a \<Rightarrow>
                (case index regs (unat srcB) of
                   Inl e \<Rightarrow> Inl e
                 | Inr b \<Rightarrow> assign regs (unat dst) (a + b))))
      of
        Inl e \<Rightarrow> Inl e
      | Inr regs' \<Rightarrow> updateFlag dst regs')"

text \<open>
  The \<^verbatim>\<open>switch op\<close> of the second file (the one with \<^verbatim>\<open>write\<close> and the bound on the
  program counter). It returns the local \<^verbatim>\<open>running\<close> and the registers. Go's cases do not
  fall through: an empty case does nothing.
\<close>

definition switch_op ::
  "uint16 \<Rightarrow> uint16 \<Rightarrow> uint16 \<Rightarrow> uint16 \<Rightarrow> uint16 \<Rightarrow> bool \<Rightarrow> uint16 list
     \<Rightarrow> error + (bool \<times> uint16 list)" where
  "switch_op op dst srcA flag srcB running regs =
     (if op = 0x0 then Inr (running, regs)
      else if op = 0x1 then
        (case case_Add dst srcA flag srcB regs of
           Inl e \<Rightarrow> Inl e
         | Inr regs' \<Rightarrow> Inr (running, regs'))
      else if op = 0x2 then Inr (running, regs)
      else if op = 0x3 then Inr (running, regs)
      else if op = 0x4 then Inr (running, regs)
      else if op = 0x5 then Inr (running, regs)
      else if op = 0x6 then Inr (running, regs)
      else if op = 0x7 then Inr (running, regs)
      else if op = 0x8 then Inr (running, regs)
      else if op = 0x9 then Inr (running, regs)
      else if op = 0xA then Inr (running, regs)
      else if op = 0xB then Inr (running, regs)
      else if op = 0xC then Inr (running, regs)
      else if op = 0xD then Inr (running, regs)
      else if op = 0xE then Inr (running, regs)
      else if op = 0xF then Inr (False, regs)
      else Inr (False, regs))"

text \<open>The \<^verbatim>\<open>switch op\<close> of \<^verbatim>\<open>main.go\<close>: it differs in \<^verbatim>\<open>case 0x0\<close>, which stops the loop.\<close>

definition switch_op_sandbox ::
  "uint16 \<Rightarrow> uint16 \<Rightarrow> uint16 \<Rightarrow> uint16 \<Rightarrow> uint16 \<Rightarrow> bool \<Rightarrow> uint16 list
     \<Rightarrow> error + (bool \<times> uint16 list)" where
  "switch_op_sandbox op dst srcA flag srcB running regs =
     (if op = 0x0 then Inr (False, regs)
      else if op = 0x1 then
        (case case_Add dst srcA flag srcB regs of
           Inl e \<Rightarrow> Inl e
         | Inr regs' \<Rightarrow> Inr (running, regs'))
      else if op = 0x2 then Inr (running, regs)
      else if op = 0x3 then Inr (running, regs)
      else if op = 0x4 then Inr (running, regs)
      else if op = 0x5 then Inr (running, regs)
      else if op = 0x6 then Inr (running, regs)
      else if op = 0x7 then Inr (running, regs)
      else if op = 0x8 then Inr (running, regs)
      else if op = 0x9 then Inr (running, regs)
      else if op = 0xA then Inr (running, regs)
      else if op = 0xB then Inr (running, regs)
      else if op = 0xC then Inr (running, regs)
      else if op = 0xD then Inr (running, regs)
      else if op = 0xE then Inr (running, regs)
      else if op = 0xF then Inr (False, regs)
      else Inr (False, regs))"

text \<open>
  How one pass through the \<^verbatim>\<open>for\<close> loop ends: with a panic, with a \<^verbatim>\<open>break\<close>, or at
  the end of the body with \<^verbatim>\<open>running\<close> still true.
\<close>

datatype outcome = Panicked error | Exited vm | Continued vm

text \<open>
  One pass through the loop of the second file:
  \<^verbatim>\<open>registers[rPC] = registers[rPC] + 1;
  if registers[rPC] >= (uint16)(len(memory)) { break };
  instruction := read(registers[rPC]);
  op, dst, srcA, flag, srcB := decode(instruction);
  switch op { ... };
  if !running { break }\<close>.
  The conversion of \<^verbatim>\<open>len(memory)\<close> to \<^verbatim>\<open>uint16\<close> truncates. The loop is entered with
  \<^verbatim>\<open>running\<close> true, and is left as soon as it is false.
\<close>

definition iteration :: "vm \<Rightarrow> outcome" where
  "iteration s =
     (case index (registers s) rPC of
        Inl e \<Rightarrow> Panicked e
      | Inr pc \<Rightarrow>
     (case assign (registers s) rPC (pc + 1) of
        Inl e \<Rightarrow> Panicked e
      | Inr regs \<Rightarrow>
     (case index regs rPC of
        Inl e \<Rightarrow> Panicked e
      | Inr pc' \<Rightarrow>
          if pc' \<ge> of_nat (length (memory s)) then Exited (s\<lparr>registers := regs\<rparr>)
          else
     (case read (memory s) pc' of
        Inl e \<Rightarrow> Panicked e
      | Inr instruction \<Rightarrow>
     (case decode instruction of
        (op, dst, srcA, flag, srcB) \<Rightarrow>
     (case switch_op op dst srcA flag srcB True regs of
        Inl e \<Rightarrow> Panicked e
      | Inr (running, regs') \<Rightarrow>
          if \<not> running then Exited (s\<lparr>registers := regs'\<rparr>)
          else Continued (s\<lparr>registers := regs'\<rparr>)))))))"

text \<open>One pass through the loop of \<^verbatim>\<open>main.go\<close>, which has no bound on the program counter.\<close>

definition iteration_sandbox :: "vm \<Rightarrow> outcome" where
  "iteration_sandbox s =
     (case index (registers s) rPC of
        Inl e \<Rightarrow> Panicked e
      | Inr pc \<Rightarrow>
     (case assign (registers s) rPC (pc + 1) of
        Inl e \<Rightarrow> Panicked e
      | Inr regs \<Rightarrow>
     (case index regs rPC of
        Inl e \<Rightarrow> Panicked e
      | Inr pc' \<Rightarrow>
     (case read (memory s) pc' of
        Inl e \<Rightarrow> Panicked e
      | Inr instruction \<Rightarrow>
     (case decode instruction of
        (op, dst, srcA, flag, srcB) \<Rightarrow>
     (case switch_op_sandbox op dst srcA flag srcB True regs of
        Inl e \<Rightarrow> Panicked e
      | Inr (running, regs') \<Rightarrow>
          if \<not> running then Exited (s\<lparr>registers := regs'\<rparr>)
          else Continued (s\<lparr>registers := regs'\<rparr>)))))))"

text \<open>
  The \<^verbatim>\<open>for\<close> loop of the second file. \<open>None\<close> stands for a loop that never ends;
  a panic and a \<^verbatim>\<open>break\<close> both end it.
\<close>

partial_function (option) main_loop :: "vm \<Rightarrow> (error + vm) option" where
  "main_loop s =
     (case iteration s of
        Panicked e \<Rightarrow> Some (Inl e)
      | Exited s' \<Rightarrow> Some (Inr s')
      | Continued s' \<Rightarrow> main_loop s')"

text \<open>
  The state \<^verbatim>\<open>main\<close> builds before the loop (both files):
  \<^verbatim>\<open>memory = make([]uint16, math.MaxUint16); registers = make([]uint16, rCN);
  registers[rPC] = pcStart; memory[pcStart+1] = 0x1001; memory[pcStart+2] = 0x1001;
  memory[pcStart+3] = 0x1001; memory[pcStart+4] = 0x1024; registers[r1] = 0x1\<close>.
\<close>

definition main_init :: vm where
  "main_init =
     \<lparr>memory = (replicate MaxUint16 0x0)
        [unat (pcStart + 1) := 0x1001, unat (pcStart + 2) := 0x1001,
         unat (pcStart + 3) := 0x1001, unat (pcStart + 4) := 0x1024],
      registers = (replicate rCN 0x0)[rPC := pcStart, r1 := 0x1]\<rparr>"

definition main :: "(error + vm) option" where
  "main = main_loop main_init"

text \<open>
  The state of \<^verbatim>\<open>main\<close> with one instruction word at \<^verbatim>\<open>pcStart+1\<close>, the first address
  the loop fetches from.
\<close>

definition load_first :: "uint16 \<Rightarrow> vm" where
  "load_first instruction =
     main_init\<lparr>memory := (memory main_init)[unat (pcStart + 1) := instruction]\<rparr>"

text \<open>
  The state of the specification's end-to-end example: the word \<open>0x1024\<close> at address
  \<open>0x3000\<close>, \<open>R1 = 1\<close>, the program counter at \<open>0x2FFF\<close>, and zero elsewhere, as
  \<^verbatim>\<open>make\<close> leaves it.
\<close>

definition end_to_end_init :: vm where
  "end_to_end_init =
     \<lparr>memory = (replicate MaxUint16 0x0)[0x3000 := 0x1024],
      registers = (replicate rCN 0x0)[r1 := 0x1, rPC := 0x2FFF]\<rparr>"

section \<open>Sign extension as the specification words it\<close>

text \<open>
  The specification's \<open>signExtend(value, bitWidth)\<close>: the low \<open>bitWidth\<close> bits of the
  value, with every higher bit equal to bit \<open>bitWidth - 1\<close>.
\<close>

definition signExtend_spec :: "uint16 \<Rightarrow> nat \<Rightarrow> uint16" where
  "signExtend_spec val bitWidth =
     (if bit val (bitWidth - 1) then take_bit bitWidth val OR NOT (mask bitWidth)
      else take_bit bitWidth val)"

text \<open>
  The flag a value selects, as the specification's \<open>updateFlags(value)\<close> words it:
  Z if the value is 0, else N if bit 15 is 1, else P.
\<close>

definition flag_of :: "uint16 \<Rightarrow> uint16" where
  "flag_of v = (if v = 0 then flZRO else if bit v 15 then flNEG else flPOS)"

section \<open>The decoder as the specification words it\<close>

text \<open>
  The specification's decoder returns a tagged variant, one case per opcode, each with
  the operand fields of the specification's layout table. It is defined here from the
  specification's words, to be compared with \<open>decode\<close> above.
\<close>

datatype DecodedInstruction =
    I_BR uint16 uint16
  | I_ADD uint16 uint16 uint16 uint16
  | I_LD uint16 uint16
  | I_ST uint16 uint16
  | I_JSR uint16 uint16
  | I_AND uint16 uint16 uint16 uint16
  | I_LDR uint16 uint16 uint16
  | I_STR uint16 uint16 uint16
  | I_RTI
  | I_NOT uint16 uint16
  | I_LDI uint16 uint16
  | I_STI uint16 uint16
  | I_JMP uint16
  | I_RES
  | I_LEA uint16 uint16
  | I_TRAP uint16

text \<open>The field \<open>[hi:lo]\<close> of an instruction word.\<close>

definition bits :: "nat \<Rightarrow> nat \<Rightarrow> uint16 \<Rightarrow> uint16" where
  "bits hi lo r = take_bit (hi + 1 - lo) (drop_bit lo r)"

definition decode_spec :: "uint16 \<Rightarrow> DecodedInstruction" where
  "decode_spec r =
     (let op = bits 15 12 r in
      if op = 0x0 then I_BR (bits 11 9 r) (bits 8 0 r)
      else if op = 0x1 then
        I_ADD (bits 11 9 r) (bits 8 6 r) (bits 5 5 r)
          (if bits 5 5 r = 1 then bits 4 0 r else bits 2 0 r)
      else if op = 0x2 then I_LD (bits 11 9 r) (bits 8 0 r)
      else if op = 0x3 then I_ST (bits 11 9 r) (bits 8 0 r)
      else if op = 0x4 then
        I_JSR (bits 11 11 r) (if bits 11 11 r = 1 then bits 10 0 r else bits 8 6 r)
      else if op = 0x5 then
        I_AND (bits 11 9 r) (bits 8 6 r) (bits 5 5 r)
          (if bits 5 5 r = 1 then bits 4 0 r else bits 2 0 r)
      else if op = 0x6 then I_LDR (bits 11 9 r) (bits 8 6 r) (bits 5 0 r)
      else if op = 0x7 then I_STR (bits 11 9 r) (bits 8 6 r) (bits 5 0 r)
      else if op = 0x8 then I_RTI
      else if op = 0x9 then I_NOT (bits 11 9 r) (bits 8 6 r)
      else if op = 0xA then I_LDI (bits 11 9 r) (bits 8 0 r)
      else if op = 0xB then I_STI (bits 11 9 r) (bits 8 0 r)
      else if op = 0xC then I_JMP (bits 8 6 r)
      else if op = 0xD then I_RES
      else if op = 0xE then I_LEA (bits 11 9 r) (bits 8 0 r)
      else I_TRAP (bits 7 0 r))"

text \<open>The operand fields a decoded instruction carries, in the order of the layout table.\<close>

fun operands_of :: "DecodedInstruction \<Rightarrow> uint16 list" where
  "operands_of (I_BR c off) = [c, off]"
| "operands_of (I_ADD d s m x) = [d, s, m, x]"
| "operands_of (I_LD d off) = [d, off]"
| "operands_of (I_ST d off) = [d, off]"
| "operands_of (I_JSR m x) = [m, x]"
| "operands_of (I_AND d s m x) = [d, s, m, x]"
| "operands_of (I_LDR d b off) = [d, b, off]"
| "operands_of (I_STR d b off) = [d, b, off]"
| "operands_of I_RTI = []"
| "operands_of (I_NOT d s) = [d, s]"
| "operands_of (I_LDI d off) = [d, off]"
| "operands_of (I_STI d off) = [d, off]"
| "operands_of (I_JMP b) = [b]"
| "operands_of I_RES = []"
| "operands_of (I_LEA d off) = [d, off]"
| "operands_of (I_TRAP v) = [v]"

text \<open>The four operand fields of the tuple \<open>decode\<close> returns, in its order.\<close>

fun operand_fields :: "uint16 \<times> uint16 \<times> uint16 \<times> uint16 \<times> uint16 \<Rightarrow> uint16 list" where
  "operand_fields (op, dst, srcA, flag, srcB) = [dst, srcA, flag, srcB]"

text \<open>
  The distance of the program counter from the bound of the loop: the number of passes
  still possible before the \<^verbatim>\<open>break\<close> at \<^verbatim>\<open>registers[rPC] >= (uint16)(len(memory))\<close>.
\<close>

definition loop_measure :: "vm \<Rightarrow> nat" where
  "loop_measure s =
     (let L = unat (of_nat (length (memory s)) :: uint16); p = unat (registers s ! rPC)
      in if p < L then L - p else L + 1)"

section \<open>Properties of the helper functions\<close>

text \<open>
  Claim C9. The byte swap is an involution: for every 16-bit word \<open>x\<close>,
  \<open>swap (swap x) = x\<close>.
\<close>

theorem swap_involution: "swap (swap x) = x"
  unfolding swap_def
  by (rule bit_word_eqI) (auto simp add: bit_simps)

text \<open>
  Claim C1. At the specification's own first example the code does not sign-extend:
  \<open>signExtend 0b11111 5\<close> is \<open>0xFFE0\<close>, because the assignment replaces \<open>x\<close> by the
  shifted constant and so clears the low five bits, where the specification asks for
  \<open>0xFFFF\<close>. The other two examples, whose sign bit is clear, come out as stated.
\<close>

theorem signExtend_overwrites_low_bits:
  "signExtend 0x1F 5 = 0xFFE0 \<and> signExtend_spec 0x1F 5 = 0xFFFF
   \<and> signExtend 0x01 5 = 0x0001 \<and> signExtend_spec 0x01 5 = 0x0001
   \<and> signExtend 0x0F 5 = 0x000F \<and> signExtend_spec 0x0F 5 = 0x000F"
  by (simp add: signExtend_def signExtend_spec_def mask_eq_exp_minus_1)

section \<open>Memory\<close>

text \<open>
  Claim C2. The memory \<^verbatim>\<open>main\<close> allocates has \<open>math.MaxUint16 = 65535\<close> words, one
  short of the 16-bit address space: reading or writing address \<open>0xFFFF\<close> is an index
  out of range, while address \<open>0xFFFE\<close>, the last one, can be read.
\<close>

theorem memory_misses_last_address:
  "length (memory main_init) = 65535
   \<and> read (memory main_init) 0xFFFF = Inl IndexOutOfRange
   \<and> write (memory main_init) 0xFFFF v = Inl IndexOutOfRange
   \<and> read (memory main_init) 0xFFFE = Inr 0x0"
  by (simp add: main_init_def MaxUint16_def read_def write_def index_def assign_def
      pcStart_def)

text \<open>
  Claim C7, as stated, fails: \<open>read\<close> does not intercept the keyboard addresses. A word
  written to \<open>0xFE02\<close> is read back whole, bits above the low eight included, and the word
  stored at \<open>0xFE00\<close> is returned as it is; \<open>read\<close> returns only a value, so the memory a
  second read sees is the same.
\<close>

theorem read_keyboard_addresses_not_intercepted:
  "write (memory main_init) rKBDR 0xABCD = Inr ((memory main_init)[unat rKBDR := 0xABCD])
   \<and> read ((memory main_init)[unat rKBDR := 0xABCD]) rKBDR = Inr 0xABCD
   \<and> read ((memory main_init)[unat rKBSR := 0x1234]) rKBSR = Inr 0x1234"
  by (simp add: main_init_def MaxUint16_def read_def write_def index_def assign_def
      pcStart_def rKBDR_def rKBSR_def)

text \<open>
  Claim C7, amended. At every address inside the memory, the two keyboard addresses
  included, \<open>read\<close> returns the stored word and changes nothing: a word written by
  \<open>write\<close> is the word \<open>read\<close> returns at that address.
\<close>

theorem read_returns_stored_word:
  assumes "unat address < length mem"
  shows "read mem address = Inr (mem ! unat address)
    \<and> write mem address v = Inr (mem[unat address := v])
    \<and> read (mem[unat address := v]) address = Inr v"
  using assms by (simp add: read_def write_def index_def assign_def)

theorem read_returns_stored_word_witness:
  "unat rKBDR < length (memory main_init)
   \<and> read (memory main_init) rKBDR = Inr 0x0
   \<and> read ((memory main_init)[unat rKBDR := 0x41]) rKBDR = Inr 0x41"
proof -
  have h: "unat rKBDR < length (memory main_init)"
    by (simp add: main_init_def MaxUint16_def rKBDR_def)
  have "memory main_init ! unat rKBDR = 0x0"
    by (simp add: main_init_def MaxUint16_def rKBDR_def pcStart_def)
  with h read_returns_stored_word [OF h, of "0x41"] show ?thesis by simp
qed

section \<open>Condition flags\<close>

lemma drop_bit_15_eq_1: "(drop_bit 15 (v::uint16) = 0x1) = bit v 15"
proof
  assume "drop_bit 15 v = 0x1"
  then have "bit (drop_bit 15 v) 0" by simp
  then show "bit v 15" by (simp add: bit_simps)
next
  assume b: "bit v 15"
  show "drop_bit 15 v = 0x1"
  proof (rule bit_word_eqI)
    fix n assume "n < LENGTH(16)"
    show "bit (drop_bit 15 v) n = bit (0x1::uint16) n"
    proof (cases "n = 0")
      case True
      with b show ?thesis by (simp add: bit_simps)
    next
      case False
      then have "\<not> bit v (15 + n)" using bit_imp_le_length [of v "15 + n"] by auto
      with False show ?thesis by (simp add: bit_simps)
    qed
  qed
qed

lemma updateFlag_eq:
  "unat f < length regs \<Longrightarrow> rCD < length regs \<Longrightarrow>
   updateFlag f regs = Inr (regs[rCD := flag_of (regs ! unat f)])"
  by (simp add: updateFlag_def index_def assign_def flag_of_def drop_bit_15_eq_1)

lemma updateFlag_keeps:
  assumes "updateFlag f regs = Inr regs'"
  shows "length regs' = length regs \<and> regs' ! rPC = regs ! rPC"
  using assms
  by (auto simp add: updateFlag_def index_def assign_def rCD_def rPC_def
      split: sum.splits if_splits)

lemma flag_of_one_bit: "card {n. bit (flag_of v) n} = 1"
proof -
  have b: "card {n. bit (push_bit k (1::uint16)) n} = 1" if "k < 16" for k
  proof -
    from that have "{n. bit (push_bit k (1::uint16)) n} = {k}"
      by (auto simp add: bit_simps)
    then show ?thesis by simp
  qed
  have "card {n. bit flZRO n} = 1" "card {n. bit flNEG n} = 1" "card {n. bit flPOS n} = 1"
    unfolding flZRO_def flNEG_def flPOS_def by (rule b, simp)+
  then show ?thesis unfolding flag_of_def by (simp only: refl split: if_split) blast
qed

text \<open>
  The value reaches \<open>updateFlag\<close> through a register: the argument is the index of
  the register that holds it, as in the call \<^verbatim>\<open>updateFlag(dst)\<close>. Any 16-bit value can be
  held by a register, here \<open>R0\<close>; an index outside the register file is a panic.
\<close>

lemma updateFlag_every_value:
  "updateFlag 0x0 ((replicate rCN 0x0)[r0 := v]) =
     Inr ((replicate rCN 0x0)[r0 := v, rCD := flag_of v])"
  using updateFlag_eq [of 0 "(replicate rCN 0x0)[r0 := v]"]
  by (simp add: rCN_def r0_def rCD_def)

lemma updateFlag_index_out_of_range:
  "length regs \<le> unat f \<Longrightarrow> updateFlag f regs = Inl IndexOutOfRange"
  by (simp add: updateFlag_def index_def)

text \<open>
  Claim C5. For every 16-bit value \<open>v\<close>, held by any of the ten registers, \<open>updateFlag\<close>
  called for that register sets the condition-flag register to Z if \<open>v = 0\<close>, else to N
  if bit 15 of \<open>v\<close> is 1, else to P. The new flag word is one of \<open>P = 1\<close>, \<open>Z = 2\<close>,
  \<open>N = 4\<close> and has exactly one bit set; it replaces the previous flag word entirely.
\<close>

theorem updateFlag_sets_one_flag:
  assumes "unat f < length regs" and "length regs = rCN" and "regs ! unat f = v"
  shows "updateFlag f regs = Inr (regs[rCD := flag_of v])
    \<and> regs[rCD := flag_of v] ! rCD = flag_of v
    \<and> (flag_of v = flZRO \<longleftrightarrow> v = 0)
    \<and> (flag_of v = flNEG \<longleftrightarrow> v \<noteq> 0 \<and> bit v 15)
    \<and> (flag_of v = flPOS \<longleftrightarrow> v \<noteq> 0 \<and> \<not> bit v 15)
    \<and> flPOS = 1 \<and> flZRO = 2 \<and> flNEG = 4
    \<and> card {n. bit (flag_of v) n} = 1"
proof -
  from assms(2) have c: "rCD < length regs" by (simp add: rCD_def rCN_def)
  with assms(1) have "updateFlag f regs = Inr (regs[rCD := flag_of (regs ! unat f)])"
    by (rule updateFlag_eq)
  with assms(3) have u: "updateFlag f regs = Inr (regs[rCD := flag_of v])" by simp
  have i: "(flag_of v = flZRO \<longleftrightarrow> v = 0)
    \<and> (flag_of v = flNEG \<longleftrightarrow> v \<noteq> 0 \<and> bit v 15)
    \<and> (flag_of v = flPOS \<longleftrightarrow> v \<noteq> 0 \<and> \<not> bit v 15)
    \<and> flPOS = 1 \<and> flZRO = 2 \<and> flNEG = 4"
    by (simp add: flag_of_def flPOS_def flZRO_def flNEG_def)
  from c have n: "regs[rCD := flag_of v] ! rCD = flag_of v" by simp
  from u n i flag_of_one_bit [of v] show ?thesis by blast
qed

theorem updateFlag_sets_one_flag_witness:
  "unat (0x3::uint16) < length [0, 0, 0, 0x8001, 0, 0, 0, 0, 0, 0x2::uint16]
   \<and> length [0, 0, 0, 0x8001, 0, 0, 0, 0, 0, 0x2::uint16] = rCN
   \<and> [0, 0, 0, 0x8001, 0, 0, 0, 0, 0, 0x2::uint16] ! unat (0x3::uint16) = 0x8001
   \<and> updateFlag 0x3 [0, 0, 0, 0x8001, 0, 0, 0, 0, 0, 0x2] =
       Inr [0, 0, 0, 0x8001, 0, 0, 0, 0, 0, 0x4]"
proof -
  have h: "unat (0x3::uint16) < length [0, 0, 0, 0x8001, 0, 0, 0, 0, 0, 0x2::uint16]"
    by simp
  have l: "length [0, 0, 0, 0x8001, 0, 0, 0, 0, 0, 0x2::uint16] = rCN"
    by (simp add: rCN_def)
  have v: "[0, 0, 0, 0x8001, 0, 0, 0, 0, 0, 0x2::uint16] ! unat (0x3::uint16) = 0x8001"
    by simp
  from updateFlag_sets_one_flag [OF h l v, THEN conjunct1] h l v show ?thesis
    by (simp add: flag_of_def flNEG_def rCD_def)
qed

section \<open>The decoder\<close>

lemma unat_and_7: "unat (x AND (0x7::uint16)) < 8"
proof -
  have "unat (x AND 0x7) \<le> unat (0x7 :: uint16)"
    by (rule word_and_le1 [THEN word_le_nat_alt [THEN iffD1]])
  then show ?thesis by simp
qed

lemma decode_arith:
  assumes "decode r = (op, dst, srcA, flag, srcB)"
  shows "unat op = unat r div 4096 \<and> unat dst = unat r div 512 mod 8
    \<and> unat srcA = unat r div 64 mod 8 \<and> unat flag = unat r div 32 mod 2
    \<and> unat srcB = unat r mod 32"
proof -
  have m: "(0x7::uint16) = mask 3" "(0x1F::uint16) = mask 5"
    by (simp_all add: mask_eq_exp_minus_1)
  from assms show ?thesis
    unfolding decode_def m
    by (auto simp add: drop_bit_eq_div take_bit_eq_mod unat_div unat_mod and_one_eq
        simp flip: take_bit_eq_mask)
qed

lemma decode_ignores_opcode: "snd (decode (r AND 0x0FFF)) = snd (decode r)"
proof -
  have m: "(0x0FFF::uint16) = mask 12" "(0x7::uint16) = mask 3" "(0x1F::uint16) = mask 5"
    by (simp_all add: mask_eq_exp_minus_1)
  show ?thesis
    unfolding decode_def m
    by (auto simp add: bit_eq_iff [where ?'a = "16 word"] bit_simps)
qed

text \<open>
  Claim C6, as stated, fails: for the BR word \<open>0x01FF\<close> the layout table gives the fields
  \<open>cond = 0\<close> and \<open>pcOffset9 = 0x1FF\<close>, and \<open>decode\<close> returns the fields of the ADD layout,
  \<open>(0, 7, 1, 0x1F)\<close>, the same as for the TRAP word \<open>0xF1FF\<close>.
\<close>

theorem decode_is_not_per_opcode:
  "decode 0x01FF = (0x0, 0x0, 0x7, 0x1, 0x1F) \<and> decode_spec 0x01FF = I_BR 0x0 0x1FF
   \<and> operand_fields (decode 0x01FF) \<noteq> operands_of (decode_spec 0x01FF)
   \<and> operand_fields (decode 0xF1FF) = operand_fields (decode 0x01FF)
   \<and> decode_spec 0xF1FF = I_TRAP 0xFF"
  by (simp add: decode_def decode_spec_def bits_def)

text \<open>
  Claim C6, amended. For every 16-bit instruction word, \<open>decode\<close> returns one fixed
  five-tuple: the opcode from bits \<open>[15:12]\<close> and, whatever the opcode, the fields at bits
  \<open>[11:9]\<close>, \<open>[8:6]\<close>, \<open>[5]\<close> and \<open>[4:0]\<close>; the four fields depend on the low twelve bits
  only.
\<close>

theorem decode_fixed_five_tuple:
  "(case decode r of (op, dst, srcA, flag, srcB) \<Rightarrow>
      unat op = unat r div 4096 \<and> unat dst = unat r div 512 mod 8
      \<and> unat srcA = unat r div 64 mod 8 \<and> unat flag = unat r div 32 mod 2
      \<and> unat srcB = unat r mod 32)
   \<and> snd (decode (r AND 0x0FFF)) = snd (decode r)"
proof -
  obtain op dst srcA flag srcB where d: "decode r = (op, dst, srcA, flag, srcB)"
    by (cases "decode r")
  from decode_arith [OF d] d decode_ignores_opcode [of r] show ?thesis by simp
qed

section \<open>The ADD case\<close>

lemma case_Add_immediate:
  assumes "unat dst < length regs" "unat srcA < length regs" "rCD < length regs"
  shows "case_Add dst srcA 0x1 srcB regs =
    Inr (regs[unat dst := regs ! unat srcA + srcB, rCD := flag_of (regs ! unat srcA + srcB)])"
  using assms by (simp add: case_Add_def index_def assign_def updateFlag_eq)

lemma case_Add_register:
  assumes "flag \<noteq> 0x1" "unat dst < length regs" "unat srcA < length regs"
    "unat srcB < length regs" "rCD < length regs"
  shows "case_Add dst srcA flag srcB regs =
    Inr (regs[unat dst := regs ! unat srcA + regs ! unat srcB,
              rCD := flag_of (regs ! unat srcA + regs ! unat srcB)])"
  using assms by (simp add: case_Add_def index_def assign_def updateFlag_eq)

lemma case_Add_keeps:
  assumes "case_Add dst srcA flag srcB regs = Inr regs'" "unat dst < 8"
  shows "length regs' = length regs \<and> regs' ! rPC = regs ! rPC"
proof -
  from assms(1) obtain regs1 v where a: "assign regs (unat dst) v = Inr regs1"
    and u: "updateFlag dst regs1 = Inr regs'"
    by (auto simp add: case_Add_def split: sum.splits if_splits)
  from a assms(2) have "length regs1 = length regs \<and> regs1 ! rPC = regs ! rPC"
    by (auto simp add: assign_def rPC_def split: if_splits)
  with updateFlag_keeps [OF u] show ?thesis by simp
qed

lemma switch_op_Add:
  "switch_op 0x1 dst srcA flag srcB running regs =
     (case case_Add dst srcA flag srcB regs of
        Inl e \<Rightarrow> Inl e
      | Inr regs' \<Rightarrow> Inr (running, regs'))"
  "switch_op_sandbox 0x1 dst srcA flag srcB running regs =
     (case case_Add dst srcA flag srcB regs of
        Inl e \<Rightarrow> Inl e
      | Inr regs' \<Rightarrow> Inr (running, regs'))"
  by (simp_all add: switch_op_def switch_op_sandbox_def)

lemma registers_made: "replicate rCN (0x0::uint16) = [0, 0, 0, 0, 0, 0, 0, 0, 0, 0]"
  by (simp add: rCN_def numeral_eq_Suc)

lemma registers_main_init: "registers main_init = [0, 0x1, 0, 0, 0, 0, 0, 0, 0x3000, 0]"
  by (simp add: main_init_def registers_made rPC_def r1_def pcStart_def)

lemma memory_main_init:
  "length (memory main_init) = 65535" "memory main_init ! 12289 = 0x1001"
  by (simp_all add: main_init_def MaxUint16_def pcStart_def)

text \<open>
  Claim C3, as stated, fails: for the word \<open>0x103F\<close> (ADD R0, R0 with mode bit 1 and
  \<open>imm5 = 0b11111\<close>) and \<open>R0 = 0\<close>, the executor stores \<open>0x001F\<close> and sets P, where
  \<open>src1 + signExtend(imm5, 5)\<close> is \<open>0xFFFF\<close> with the specification's sign extension
  and \<open>0xFFE0\<close> with the code's own \<open>signExtend\<close>.
\<close>

theorem add_immediate_not_sign_extended:
  "decode 0x103F = (0x1, 0x0, 0x0, 0x1, 0x1F)
   \<and> switch_op 0x1 0x0 0x0 0x1 0x1F True (replicate rCN 0x0) =
       Inr (True, (replicate rCN 0x0)[r0 := 0x1F, rCD := flPOS])
   \<and> (0x0::uint16) + signExtend_spec 0x1F 5 = 0xFFFF
   \<and> (0x0::uint16) + signExtend 0x1F 5 = 0xFFE0"
  by (simp add: decode_def switch_op_def case_Add_def updateFlag_def index_def assign_def
      signExtend_def signExtend_spec_def mask_eq_exp_minus_1
      rCN_def r0_def rCD_def flPOS_def)

text \<open>
  Claim C3, amended. For every decoded ADD instruction, in both files: when the mode
  bit is 1 the executor stores \<open>src1 + imm5\<close> (mod \<open>2^16\<close>) into \<open>dst\<close>, with \<open>imm5\<close> the
  unsigned value of bits \<open>[4:0]\<close>, not sign-extended; when the mode bit is 0 and bits
  \<open>[4:3]\<close> are zero it stores \<open>src1 + src2\<close> (mod \<open>2^16\<close>) into \<open>dst\<close>; in both cases it
  then sets the condition flags from the new value of \<open>dst\<close>.
\<close>

theorem add_case_stores_sum:
  assumes "decode r = (op, dst, srcA, flag, srcB)" and "op = 0x1" and "length regs = rCN"
  shows "(flag = 0x1 \<longrightarrow>
            unat srcB = unat r mod 32
          \<and> switch_op op dst srcA flag srcB running regs =
              Inr (running, regs[unat dst := regs ! unat srcA + srcB,
                                 rCD := flag_of (regs ! unat srcA + srcB)])
          \<and> switch_op_sandbox op dst srcA flag srcB running regs =
              Inr (running, regs[unat dst := regs ! unat srcA + srcB,
                                 rCD := flag_of (regs ! unat srcA + srcB)]))
    \<and> (flag \<noteq> 0x1 \<and> unat srcB < 8 \<longrightarrow>
            switch_op op dst srcA flag srcB running regs =
              Inr (running, regs[unat dst := regs ! unat srcA + regs ! unat srcB,
                                 rCD := flag_of (regs ! unat srcA + regs ! unat srcB)])
          \<and> switch_op_sandbox op dst srcA flag srcB running regs =
              Inr (running, regs[unat dst := regs ! unat srcA + regs ! unat srcB,
                                 rCD := flag_of (regs ! unat srcA + regs ! unat srcB)]))"
proof -
  from decode_arith [OF assms(1)] have b: "unat dst < 8" "unat srcA < 8"
    and i: "unat srcB = unat r mod 32" by simp_all
  with assms(3) have l: "unat dst < length regs" "unat srcA < length regs" "rCD < length regs"
    by (simp_all add: rCN_def rCD_def)
  note s = switch_op_Add [of dst srcA flag srcB running regs]
  show ?thesis
  proof (cases "flag = 0x1")
    case True
    with case_Add_immediate [OF l, of srcB] s i assms(2) show ?thesis by simp
  next
    case register: False
    show ?thesis
    proof (cases "unat srcB < 8")
      case True
      with assms(3) have "unat srcB < length regs" by (simp add: rCN_def)
      from case_Add_register [OF register l(1,2) this l(3)] s register assms(2)
      show ?thesis by simp
    next
      case False
      with register show ?thesis by simp
    qed
  qed
qed

theorem add_case_stores_sum_witness:
  "decode 0x1024 = (0x1, 0x0, 0x0, 0x1, 0x4) \<and> length (registers main_init) = rCN
   \<and> switch_op 0x1 0x0 0x0 0x1 0x4 True (registers main_init) =
       Inr (True, [0x4, 0x1, 0, 0, 0, 0, 0, 0, 0x3000, flPOS])
   \<and> decode 0x1001 = (0x1, 0x0, 0x0, 0x0, 0x1) \<and> unat (0x1::uint16) < 8
   \<and> switch_op 0x1 0x0 0x0 0x0 0x1 True (registers main_init) =
       Inr (True, [0x1, 0x1, 0, 0, 0, 0, 0, 0, 0x3000, flPOS])"
proof -
  have d: "decode 0x1024 = (0x1, 0x0, 0x0, 0x1, 0x4)"
    "decode 0x1001 = (0x1, 0x0, 0x0, 0x0, 0x1)"
    by (simp_all add: decode_def)
  have l: "length (registers main_init) = rCN"
    by (simp add: registers_main_init rCN_def)
  from add_case_stores_sum [OF d(1) refl l, of True]
    add_case_stores_sum [OF d(2) refl l, of True] d l
  show ?thesis
    by (simp add: registers_main_init flag_of_def rCD_def)
qed

section \<open>One pass through the loop\<close>

lemma switch_op_keeps:
  assumes "switch_op op dst srcA flag srcB running regs = Inr (running', regs')"
    and "unat dst < 8"
  shows "length regs' = length regs \<and> regs' ! rPC = regs ! rPC"
proof (cases "op = 0x1")
  case True
  with assms(1) have "case_Add dst srcA flag srcB regs = Inr regs'"
    by (simp add: switch_op_def split: sum.splits)
  then show ?thesis using assms(2) by (rule case_Add_keeps)
next
  case False
  with assms(1) have "regs' = regs"
    by (simp add: switch_op_def split: if_splits)
  then show ?thesis by simp
qed

lemma iteration_fetch:
  assumes "rPC < length (registers s)"
    and "registers s ! rPC + 1 < of_nat (length (memory s))"
    and "read (memory s) (registers s ! rPC + 1) = Inr instruction"
    and "decode instruction = (op, dst, srcA, flag, srcB)"
  shows "iteration s =
    (case switch_op op dst srcA flag srcB True ((registers s)[rPC := registers s ! rPC + 1]) of
       Inl e \<Rightarrow> Panicked e
     | Inr (running, regs') \<Rightarrow>
         if \<not> running then Exited (s\<lparr>registers := regs'\<rparr>)
         else Continued (s\<lparr>registers := regs'\<rparr>))"
proof -
  from assms(2) have "\<not> of_nat (length (memory s)) \<le> registers s ! rPC + 1"
    by (simp add: not_le)
  with assms show ?thesis by (simp add: iteration_def index_def assign_def)
qed

lemma iteration_sandbox_fetch:
  assumes "rPC < length (registers s)"
    and "read (memory s) (registers s ! rPC + 1) = Inr instruction"
    and "decode instruction = (op, dst, srcA, flag, srcB)"
  shows "iteration_sandbox s =
    (case switch_op_sandbox op dst srcA flag srcB True
            ((registers s)[rPC := registers s ! rPC + 1]) of
       Inl e \<Rightarrow> Panicked e
     | Inr (running, regs') \<Rightarrow>
         if \<not> running then Exited (s\<lparr>registers := regs'\<rparr>)
         else Continued (s\<lparr>registers := regs'\<rparr>))"
  using assms by (simp add: iteration_sandbox_def index_def assign_def)

lemma iteration_Continued:
  assumes "iteration s = Continued s'"
  shows "memory s' = memory s \<and> length (registers s') = length (registers s)
    \<and> registers s' ! rPC = registers s ! rPC + 1
    \<and> registers s ! rPC + 1 < of_nat (length (memory s))"
proof -
  from assms have l: "rPC < length (registers s)"
    by (simp add: iteration_def index_def split: if_splits)
  define regs where "regs = (registers s)[rPC := registers s ! rPC + 1]"
  have r: "length regs = length (registers s)" "regs ! rPC = registers s ! rPC + 1"
    using l by (simp_all add: regs_def)
  from assms l have b: "registers s ! rPC + 1 < of_nat (length (memory s))"
    by (auto simp add: iteration_def index_def assign_def split: if_splits)
  from assms l b obtain instruction op dst srcA flag srcB running regs' where
    d: "decode instruction = (op, dst, srcA, flag, srcB)"
    and sw: "switch_op op dst srcA flag srcB True regs = Inr (running, regs')"
    and s': "s' = s\<lparr>registers := regs'\<rparr>"
    by (auto simp add: iteration_def index_def assign_def regs_def
        split: sum.splits prod.splits if_splits)
  from d have "unat dst < 8"
    by (auto simp add: decode_def unat_and_7)
  from switch_op_keeps [OF sw this] r b s' show ?thesis by simp
qed

lemma registers_end_to_end_init:
  "registers end_to_end_init = [0, 0x1, 0, 0, 0, 0, 0, 0, 0x2FFF, 0]"
  by (simp add: end_to_end_init_def registers_made rPC_def r1_def)

lemma memory_end_to_end_init:
  "length (memory end_to_end_init) = 65535" "memory end_to_end_init ! 12288 = 0x1024"
  by (simp_all add: end_to_end_init_def MaxUint16_def)

text \<open>
  Claim C4, as stated, fails: from the state of the example, with every other register
  0, one pass through the loop leaves \<open>R0 = 4\<close>, not 5, and the program counter at
  \<open>0x3000\<close>, not \<open>0x3001\<close>. The word \<open>0x1024\<close> has source field 0, so it adds 4 to \<open>R0\<close>,
  and the program counter is incremented once, before the fetch.
\<close>

theorem end_to_end_example_fails:
  "iteration end_to_end_init =
     Continued (end_to_end_init\<lparr>registers := [0x4, 0x1, 0, 0, 0, 0, 0, 0, 0x3000, flPOS]\<rparr>)
   \<and> (0x4::uint16) \<noteq> 0x5 \<and> (0x3000::uint16) \<noteq> 0x3001"
  by (simp add: iteration_def registers_end_to_end_init memory_end_to_end_init index_def
      assign_def read_def decode_def switch_op_def case_Add_def updateFlag_def rPC_def rCD_def
      flPOS_def)

text \<open>
  Claim C4, amended. Starting from a machine whose memory holds \<open>0x1024\<close> at address
  \<open>0x3000\<close>, with \<open>R0 = 0\<close> and the program counter at \<open>0x2FFF\<close> before the loop's
  increment (whatever \<open>R1\<close> holds), after exactly one pass \<open>R0 = 4\<close>, the condition flags
  hold P, the program counter is \<open>0x3000\<close>, and nothing else has changed.
\<close>

theorem end_to_end_step:
  assumes "length (registers s) = rCN" and "length (memory s) = MaxUint16"
    and "memory s ! 0x3000 = 0x1024" and "registers s ! r0 = 0x0"
    and "registers s ! rPC = 0x2FFF"
  shows "iteration s =
    Continued (s\<lparr>registers := (registers s)[rPC := 0x3000, r0 := 0x4, rCD := flPOS]\<rparr>)"
proof -
  have l: "rPC < length (registers s)" using assms(1) by (simp add: rPC_def rCN_def)
  have b: "registers s ! rPC + 1 < of_nat (length (memory s))"
    using assms(2,5) by (simp add: MaxUint16_def)
  have rd: "read (memory s) (registers s ! rPC + 1) = Inr 0x1024"
    using assms(2,3,5) by (simp add: read_def index_def MaxUint16_def)
  have d: "decode 0x1024 = (0x1, 0x0, 0x0, 0x1, 0x4)" by (simp add: decode_def)
  let ?regs = "(registers s)[rPC := registers s ! rPC + 1]"
  have "case_Add 0x0 0x0 0x1 0x4 ?regs =
      Inr (?regs[unat (0x0::uint16) := ?regs ! unat (0x0::uint16) + 0x4,
                 rCD := flag_of (?regs ! unat (0x0::uint16) + 0x4)])"
    by (rule case_Add_immediate) (simp_all add: assms(1) rCN_def rCD_def)
  moreover have "?regs ! 0 = 0x0" using assms(4) by (simp add: r0_def rPC_def)
  ultimately have "switch_op 0x1 0x0 0x0 0x1 0x4 True ?regs =
      Inr (True, ?regs[r0 := 0x4, rCD := flPOS])"
    by (simp add: switch_op_def flag_of_def r0_def)
  with iteration_fetch [OF l b rd d] assms(5) show ?thesis by simp
qed

theorem end_to_end_step_witness:
  "length (registers end_to_end_init) = rCN \<and> length (memory end_to_end_init) = MaxUint16
   \<and> memory end_to_end_init ! 0x3000 = 0x1024 \<and> registers end_to_end_init ! r0 = 0x0
   \<and> registers end_to_end_init ! r1 = 0x1 \<and> registers end_to_end_init ! rPC = 0x2FFF
   \<and> iteration end_to_end_init =
       Continued (end_to_end_init\<lparr>registers :=
         (registers end_to_end_init)[rPC := 0x3000, r0 := 0x4, rCD := flPOS]\<rparr>)"
proof -
  have h: "length (registers end_to_end_init) = rCN"
    "length (memory end_to_end_init) = MaxUint16"
    "memory end_to_end_init ! 0x3000 = 0x1024" "registers end_to_end_init ! r0 = 0x0"
    "registers end_to_end_init ! rPC = 0x2FFF"
    and h1: "registers end_to_end_init ! r1 = 0x1"
    by (simp_all add: end_to_end_init_def rCN_def MaxUint16_def r0_def r1_def rPC_def)
  from end_to_end_step [OF h] h h1 show ?thesis by simp
qed

text \<open>
  Claim C8, as stated, fails: with the RTI word \<open>0x8000\<close> at the first fetched address,
  one pass through the loop raises no fault and does not stop the loop; it ends with
  \<^verbatim>\<open>running\<close> still true and only the program counter changed.
\<close>

theorem rti_does_not_fault:
  "iteration (load_first 0x8000) =
     Continued ((load_first 0x8000)\<lparr>registers := [0, 0x1, 0, 0, 0, 0, 0, 0, 0x3001, 0]\<rparr>)"
  by (simp add: iteration_def load_first_def registers_main_init memory_main_init index_def
      assign_def read_def decode_def switch_op_def rPC_def pcStart_def)

text \<open>
  Claim C8, amended. Whenever an instruction with opcode RTI (\<open>0x8\<close>) or RES (\<open>0xD\<close>)
  is fetched and decoded, in both files the executor does nothing: no fault is raised,
  the loop goes on to its next pass, and no register, flag or memory word is changed by
  that instruction (the program counter holds the value the loop's increment gave it).
\<close>

theorem rti_res_are_no_ops:
  assumes "rPC < length (registers s)"
    and "registers s ! rPC + 1 < of_nat (length (memory s))"
    and "read (memory s) (registers s ! rPC + 1) = Inr instruction"
    and "fst (decode instruction) = 0x8 \<or> fst (decode instruction) = 0xD"
  shows "iteration s =
      Continued (s\<lparr>registers := (registers s)[rPC := registers s ! rPC + 1]\<rparr>)
    \<and> iteration_sandbox s =
      Continued (s\<lparr>registers := (registers s)[rPC := registers s ! rPC + 1]\<rparr>)"
proof -
  obtain op dst srcA flag srcB where d: "decode instruction = (op, dst, srcA, flag, srcB)"
    by (cases "decode instruction")
  with assms(4) have "op = 0x8 \<or> op = 0xD" by simp
  then have
    "switch_op op dst srcA flag srcB True ((registers s)[rPC := registers s ! rPC + 1])
      = Inr (True, (registers s)[rPC := registers s ! rPC + 1])"
    and
    "switch_op_sandbox op dst srcA flag srcB True ((registers s)[rPC := registers s ! rPC + 1])
      = Inr (True, (registers s)[rPC := registers s ! rPC + 1])"
    by (auto simp add: switch_op_def switch_op_sandbox_def)
  then show ?thesis
    using iteration_fetch [OF assms(1,2,3) d] iteration_sandbox_fetch [OF assms(1,3) d]
    by simp
qed

theorem rti_res_are_no_ops_witness:
  "rPC < length (registers (load_first 0xD000))
   \<and> registers (load_first 0xD000) ! rPC + 1 < of_nat (length (memory (load_first 0xD000)))
   \<and> read (memory (load_first 0xD000)) (registers (load_first 0xD000) ! rPC + 1) = Inr 0xD000
   \<and> fst (decode 0xD000) = 0xD
   \<and> iteration (load_first 0xD000) =
       Continued ((load_first 0xD000)\<lparr>registers := [0, 0x1, 0, 0, 0, 0, 0, 0, 0x3001, 0]\<rparr>)
   \<and> iteration_sandbox (load_first 0xD000) =
       Continued ((load_first 0xD000)\<lparr>registers := [0, 0x1, 0, 0, 0, 0, 0, 0, 0x3001, 0]\<rparr>)"
proof -
  have h: "rPC < length (registers (load_first 0xD000))"
    "registers (load_first 0xD000) ! rPC + 1 < of_nat (length (memory (load_first 0xD000)))"
    "read (memory (load_first 0xD000)) (registers (load_first 0xD000) ! rPC + 1) = Inr 0xD000"
    by (simp_all add: load_first_def registers_main_init memory_main_init rPC_def read_def
        index_def pcStart_def)
  have d: "fst (decode 0xD000) = 0x8 \<or> fst (decode 0xD000) = 0xD" "fst (decode 0xD000) = 0xD"
    by (simp_all add: decode_def)
  from rti_res_are_no_ops [OF h d(1)] h d(2) show ?thesis
    by (simp add: load_first_def registers_main_init rPC_def)
qed

section \<open>Termination of the loop\<close>

lemma loop_measure_decreases:
  assumes "iteration s = Continued s'"
  shows "loop_measure s' < loop_measure s"
proof -
  let ?L = "of_nat (length (memory s)) :: uint16"
  let ?p = "registers s ! rPC"
  from iteration_Continued [OF assms]
  have m: "memory s' = memory s" and p': "registers s' ! rPC = ?p + 1" and b: "?p + 1 < ?L"
    by simp_all
  from b have b': "unat (?p + 1) < unat ?L" by (simp add: word_less_nat_alt)
  show ?thesis
  proof (cases "unat ?p < unat ?L")
    case True
    then have "unat ?p + 1 < 2 ^ 16" using unsigned_less [of ?L, where ?'a = nat] by simp
    then have "unat (?p + 1) = unat ?p + 1" by (simp add: unat_word_ariths)
    with True b' m p' show ?thesis by (simp add: loop_measure_def)
  next
    case False
    with b' m p' show ?thesis by (simp add: loop_measure_def)
  qed
qed

lemma main_loop_returns: "\<exists>r. main_loop s = Some r"
proof (induction "loop_measure s" arbitrary: s rule: less_induct)
  case less
  show ?case
  proof (cases "iteration s")
    case (Panicked e)
    then show ?thesis by (subst main_loop.simps) simp
  next
    case (Exited s')
    then show ?thesis by (subst main_loop.simps) simp
  next
    case (Continued s')
    then have "loop_measure s' < loop_measure s" by (rule loop_measure_decreases)
    then obtain r where "main_loop s' = Some r" using less by blast
    with Continued show ?thesis by (subst main_loop.simps) simp
  qed
qed

text \<open>
  Claim C10. From every state, so for every content of the memory, the loop of the
  second file returns (with a \<^verbatim>\<open>break\<close> or a panic): a pass that ends with \<^verbatim>\<open>running\<close>
  true leaves the program counter exactly one above its value before the pass and the
  memory as it was, since no case writes register 8; and a pass whose incremented program
  counter has reached \<^verbatim>\<open>(uint16)(len(memory))\<close> leaves the loop at once.
\<close>

theorem main_loop_terminates:
  "(\<exists>r. main_loop s = Some r)
   \<and> (\<forall>s'. iteration s = Continued s' \<longrightarrow>
         registers s' ! rPC = registers s ! rPC + 1 \<and> memory s' = memory s)
   \<and> (rPC < length (registers s) \<and> of_nat (length (memory s)) \<le> registers s ! rPC + 1 \<longrightarrow>
         iteration s = Exited (s\<lparr>registers := (registers s)[rPC := registers s ! rPC + 1]\<rparr>))"
proof -
  have "rPC < length (registers s) \<and> of_nat (length (memory s)) \<le> registers s ! rPC + 1 \<longrightarrow>
         iteration s = Exited (s\<lparr>registers := (registers s)[rPC := registers s ! rPC + 1]\<rparr>)"
    by (simp add: iteration_def index_def assign_def)
  with main_loop_returns [of s] iteration_Continued [of s] show ?thesis by blast
qed

theorem main_loop_terminates_witness:
  "(\<exists>r. main_loop main_init = Some r)
   \<and> iteration main_init =
       Continued (main_init\<lparr>registers := [0x1, 0x1, 0, 0, 0, 0, 0, 0, 0x3001, flPOS]\<rparr>)
   \<and> [0x1, 0x1, 0, 0, 0, 0, 0, 0, 0x3001, flPOS] ! rPC = registers main_init ! rPC + 1
   \<and> iteration (main_init\<lparr>registers := [0, 0x1, 0, 0, 0, 0, 0, 0, 0xFFFE, 0]\<rparr>) =
       Exited (main_init\<lparr>registers := [0, 0x1, 0, 0, 0, 0, 0, 0, 0xFFFF, 0]\<rparr>)"
proof -
  let ?s = "main_init\<lparr>registers := [0, 0x1, 0, 0, 0, 0, 0, 0, 0xFFFE, 0]\<rparr>"
  let ?s' = "main_init\<lparr>registers := [0x1, 0x1, 0, 0, 0, 0, 0, 0, 0x3001, flPOS]\<rparr>"
  have i: "iteration main_init = Continued ?s'"
    by (simp add: iteration_def registers_main_init memory_main_init index_def assign_def
        read_def decode_def switch_op_def case_Add_def updateFlag_def rPC_def rCD_def flPOS_def)
  have h: "rPC < length (registers ?s) \<and> of_nat (length (memory ?s)) \<le> registers ?s ! rPC + 1"
    by (simp add: rPC_def memory_main_init)
  have t1: "\<exists>r. main_loop main_init = Some r"
    using main_loop_terminates [of main_init] by (rule conjunct1)
  have "registers ?s' ! rPC = registers main_init ! rPC + 1"
    using main_loop_terminates [of main_init] i by blast
  then have t2:
    "[0x1, 0x1, 0, 0, 0, 0, 0, 0, 0x3001, flPOS] ! rPC = registers main_init ! rPC + 1"
    by simp
  have "iteration ?s =
      Exited (?s\<lparr>registers := (registers ?s)[rPC := registers ?s ! rPC + 1]\<rparr>)"
    using main_loop_terminates [of ?s] h by blast
  then have t3:
    "iteration ?s = Exited (main_init\<lparr>registers := [0, 0x1, 0, 0, 0, 0, 0, 0, 0xFFFF, 0]\<rparr>)"
    by (simp add: rPC_def)
  from t1 i t2 t3 show ?thesis by blast
qed

end
